theory Spec2Isabelle
  imports Main "HOL-Library.Multiset"
begin

section \<open>KubeOne prerequisite tasks (pkg/tasks/prerequisites.go)\<close>

text \<open>
  A shallow embedding of the tasks of \<^verbatim>\<open>pkg/tasks/prerequisites.go\<close>. A task of the
  source takes a pointer to the run state, mutates it and the remote hosts, and returns
  an \<^verbatim>\<open>error\<close>. Here a task takes the state and returns the pair of the error
  (\<open>None\<close> is Go's \<^verbatim>\<open>nil\<close>) and the state it leaves. What a task does to the world
  outside the process (a command run on a host, a sleep, a connection closed) is
  appended to the field \<open>effects\<close> of the state, in the order in which it happens.
  Calls of the logger are left out: they change nothing that a task reads.
\<close>

subsection \<open>Data model\<close>

text \<open>
  Modelled from the spec: the type \<^verbatim>\<open>kubeoneapi.OperatingSystemName\<close> and its constants
  are declared outside this file. Section 3 of the specification lists the values of the
  enumeration: Debian, CentOS and RHEL, Amazon Linux, Flatcar, Ubuntu and Unknown.
\<close>

datatype OperatingSystemName =
    OperatingSystemNameAmazon
  | OperatingSystemNameCentOS
  | OperatingSystemNameDebian
  | OperatingSystemNameFlatcar
  | OperatingSystemNameRHEL
  | OperatingSystemNameUbuntu
  | OperatingSystemNameUnknown

text \<open>
  Errors are values. \<open>Error\<close> is an error made outside this file (by a script template,
  a remote command, a file read, a manifest generator); the other constructors are the
  wrappers the source applies and the failures of the run itself.
\<close>

datatype error =
    Error string
  | Wrap error string
  | WithStack error
  | Errorf string error
  | NotSupportedOS OperatingSystemName
  | HostError int error
  | Aggregate "error list"
  | NilPointerDereference

text \<open>\<^verbatim>\<open>errors.Wrap\<close> and \<^verbatim>\<open>errors.WithStack\<close> return nil for a nil error.\<close>

definition errors_Wrap :: "error option \<Rightarrow> string \<Rightarrow> error option" where
  "errors_Wrap err msg = (case err of None \<Rightarrow> None | Some e \<Rightarrow> Some (Wrap e msg))"

definition errors_WithStack :: "error option \<Rightarrow> error option" where
  "errors_WithStack err = (case err of None \<Rightarrow> None | Some e \<Rightarrow> Some (WithStack e))"

text \<open>
  The cluster specification (\<^verbatim>\<open>kubeoneapi.KubeOneCluster\<close>), restricted to the fields this
  file reads. A pointer that may be nil is an \<open>option\<close>. \<open>Hosts\<close> is the roster
  that \<^verbatim>\<open>RunTaskOnAllNodes\<close> walks.
\<close>

record HostConfig =
  ID :: int
  OperatingSystem :: OperatingSystemName

record ProxyConfig =
  HTTP :: string
  HTTPS :: string
  NoProxy :: string

record StaticAuditLog =
  StaticAuditLog_Enable :: bool
  PolicyFilePath :: string

record PodNodeSelector =
  PodNodeSelector_Enable :: bool
  ConfigFilePath :: string

record EncryptionProviders =
  EncryptionProviders_Enable :: bool
  CustomEncryptionConfiguration :: string

record Features =
  Features_StaticAuditLog :: "StaticAuditLog option"
  Features_PodNodeSelector :: "PodNodeSelector option"
  Features_EncryptionProviders :: "EncryptionProviders option"

record KubeOneCluster =
  Versions_Kubernetes :: string
  CloudProvider_CloudConfig :: string
  Proxy :: ProxyConfig
  Features :: Features
  Hosts :: "HostConfig list"

text \<open>
  The live cluster (\<^verbatim>\<open>state.Cluster\<close>): what was observed on the hosts before this run.
  \<open>Initialized\<close> is the result of the method \<^verbatim>\<open>Host.Initialized()\<close>.
\<close>

record Host =
  Config :: HostConfig
  Initialized :: bool

record LiveCluster =
  ControlPlane :: "Host list"
  StaticWorkers :: "Host list"

text \<open>
  An effect on the world: \<open>EvRun c cmd vars\<close> and \<open>EvRunRaw c cmd\<close> are a command
  template with its variables, and a raw script, executed over the connection \<open>c\<close>;
  \<open>EvSleep d\<close> is \<^verbatim>\<open>time.Sleep(d)\<close> with \<open>d\<close> in nanoseconds; \<open>EvClose c\<close> is
  \<^verbatim>\<open>Close()\<close> on the connection \<open>c\<close>. A connection is named by the ID of the
  host it leads to.
\<close>

datatype event =
    EvRun int string "(string \<times> string) list"
  | EvRunRaw int string
  | EvSleep int
  | EvClose int

definition time_Minute :: int where
  "time_Minute = 60 * 1000 * 1000 * 1000"

text \<open>
  The run state (\<^verbatim>\<open>state.State\<close>). \<open>Configuration\<close> is the bundle of configuration
  files, a map from the path in the bundle to the content. \<open>Runner_Conn\<close> is the
  connection \<^verbatim>\<open>s.Runner.Conn\<close> the runner executes over.
\<close>

record State =
  Cluster :: KubeOneCluster
  LiveCluster :: LiveCluster
  Configuration :: "string \<rightharpoonup> string"
  Runner_Conn :: int
  ForceInstall :: bool
  ManifestFilePath :: string
  WorkDir :: string
  effects :: "event list"

subsection \<open>What the file calls and does not define\<close>

text \<open>
  A call of the package \<^verbatim>\<open>scripts\<close>: the template and the arguments it is rendered with.
\<close>

datatype script =
    scripts_EnvironmentFile KubeOneCluster
  | scripts_DaemonsEnvironmentDropIn "string list"
  | scripts_DisableNMCloudSetup
  | scripts_KubeadmDebian KubeOneCluster bool
  | scripts_KubeadmCentOS KubeOneCluster bool
  | scripts_KubeadmAmazonLinux KubeOneCluster bool
  | scripts_KubeadmFlatcar KubeOneCluster

datatype runtime_Object = EncryptionConfiguration string

text \<open>
  The functions of other packages that the tasks call are parameters of the model,
  gathered in one record, so that every theorem holds for whatever they return:
  \<^item> \<open>scripts\<close> renders a script, or fails;
  \<^item> \<open>exec\<close> is the remote side: given the effects so far and the command now
    executed, the error the runner returns (the outputs are discarded by every caller);
  \<^item> \<open>readFile\<close> reads the file at a path, resolved against the manifest's path;
  \<^item> \<open>schedule\<close> is the scheduler of the concurrent mode: given the effects at the
    start of a concurrent call, the rank of each host in the order in which the
    executions of that call take place (the source guarantees no order across hosts,
    so every theorem holds for every schedule, and the ranks may differ from one call
    to the next);
  \<^item> the others are the functions of the same names in \<^verbatim>\<open>state\<close>,
    \<^verbatim>\<open>admissionconfig\<close>, \<^verbatim>\<open>encryptionproviders\<close> and \<^verbatim>\<open>templates\<close>.
\<close>

record Deps =
  scripts :: "script \<Rightarrow> error + string"
  exec :: "event list \<Rightarrow> event \<Rightarrow> error option"
  readFile :: "string \<Rightarrow> string \<Rightarrow> error + string"
  NewAdmissionConfig :: "string \<Rightarrow> PodNodeSelector \<Rightarrow> error + string"
  ShouldEnableEncryption :: "State \<Rightarrow> bool"
  EncryptionEnabled :: "State \<Rightarrow> bool"
  GetEncryptionProviderConfigName :: "State \<Rightarrow> string"
  NewEncyrptionProvidersConfig :: "State \<Rightarrow> error + runtime_Object"
  KubernetesToYAML :: "runtime_Object list \<Rightarrow> error + string"
  schedule :: "event list \<Rightarrow> HostConfig \<Rightarrow> nat"

type_synonym task = "Deps \<Rightarrow> State \<Rightarrow> error option \<times> State"

type_synonym nodeTask = "Deps \<Rightarrow> State \<Rightarrow> HostConfig \<Rightarrow> int \<Rightarrow> error option \<times> State"


definition Runner_RunRaw :: "Deps \<Rightarrow> State \<Rightarrow> string \<Rightarrow> error option \<times> State" where
  "Runner_RunRaw D s cmd =
     (let ev = EvRunRaw (Runner_Conn s) cmd
      in (exec D (effects s) ev, s\<lparr>effects := effects s @ [ev]\<rparr>))"

text \<open>\<^verbatim>\<open>s.Runner.Conn.Close()\<close>; its result is not read by the caller.\<close>

definition Conn_Close :: "State \<Rightarrow> State" where
  "Conn_Close s = s\<lparr>effects := effects s @ [EvClose (Runner_Conn s)]\<rparr>"

definition time_Sleep :: "int \<Rightarrow> State \<Rightarrow> State" where
  "time_Sleep d s = s\<lparr>effects := effects s @ [EvSleep d]\<rparr>"

subsection \<open>Disabling nm-cloud-setup\<close>

text \<open>
  The body of the loop of \<^verbatim>\<open>disableNMCloudSetup\<close> (lines 148 to 169) over the hosts
  that remain. A failure to render the script returns from the task at once.
\<close>

fun disableNMCloudSetup_loop :: "Deps \<Rightarrow> HostConfig \<Rightarrow> Host list \<Rightarrow> State \<Rightarrow> error option \<times> State" where
  "disableNMCloudSetup_loop D node [] s = (None, s)"
| "disableNMCloudSetup_loop D node (host # allHosts) s =
     (if ID node = ID (Config host) \<and> \<not> Initialized host then
        (case scripts D scripts_DisableNMCloudSetup of
           Inl err \<Rightarrow> (Some err, s)
         | Inr cmd \<Rightarrow>
             (let (_, s1) = Runner_RunRaw D s cmd;
                  timeout = 1 * time_Minute;
                  s2 = time_Sleep timeout s1;
                  s3 = Conn_Close s2
              in disableNMCloudSetup_loop D node allHosts s3))
      else disableNMCloudSetup_loop D node allHosts s)"

definition disableNMCloudSetup :: nodeTask where
  "disableNMCloudSetup D s node conn =
     (if OperatingSystem node \<noteq> OperatingSystemNameRHEL then (None, s)
      else
        (let allHosts = ControlPlane (LiveCluster s) @ StaticWorkers (LiveCluster s)
         in disableNMCloudSetup_loop D node allHosts s))"

subsection \<open>The bundle of configuration files\<close>

text \<open>
  Modelled from the spec: \<^verbatim>\<open>AddFile\<close> and \<^verbatim>\<open>AddFilePath\<close> of the configuration
  bundle (package \<^verbatim>\<open>configupload\<close>). Section 3: the bundle maps a relative path to a
  content, paths are unique and the last writer overwrites. Section 4.3: the audit policy
  is read from an external path and re-keyed under the path in the bundle, and an
  unreadable source file is a failure of the add.
\<close>

definition AddFile :: "(string \<rightharpoonup> string) \<Rightarrow> string \<Rightarrow> string \<Rightarrow> (string \<rightharpoonup> string)" where
  "AddFile c filename content = c(filename \<mapsto> content)"

definition AddFilePath ::
  "Deps \<Rightarrow> (string \<rightharpoonup> string) \<Rightarrow> string \<Rightarrow> string \<Rightarrow> string \<Rightarrow> error option \<times> (string \<rightharpoonup> string)" where
  "AddFilePath D c filename filePath manifestFilePath =
     (case readFile D filePath manifestFilePath of
        Inl err \<Rightarrow> (Some err, c)
      | Inr content \<Rightarrow> (None, AddFile c filename content))"

subsection \<open>Generating the configuration files\<close>

text \<open>
  \<^verbatim>\<open>generateConfigurationFiles\<close> is four steps in a row. The three conditional ones are
  written as functions of their own: each returns \<open>Some err\<close> where the source returns
  \<^verbatim>\<open>err\<close> from the whole function, and \<open>None\<close> where control falls through to the next
  step. The nested structs \<^verbatim>\<open>StaticAuditLog.Config\<close> and \<^verbatim>\<open>PodNodeSelector.Config\<close>
  are flattened into their parents.
\<close>

text \<open>Lines 63 to 67: the audit policy.\<close>

definition generateConfigurationFiles_auditPolicy :: task where
  "generateConfigurationFiles_auditPolicy D s =
     (case Features_StaticAuditLog (Features (Cluster s)) of
        None \<Rightarrow> (None, s)
      | Some sal \<Rightarrow>
          if StaticAuditLog_Enable sal then
            (case AddFilePath D (Configuration s) ''cfg/audit-policy.yaml''
                    (PolicyFilePath sal) (ManifestFilePath s) of
               (Some err, c) \<Rightarrow> (Some (Wrap err ''unable to add policy file''), s\<lparr>Configuration := c\<rparr>)
             | (None, c) \<Rightarrow> (None, s\<lparr>Configuration := c\<rparr>))
          else (None, s))"

text \<open>Lines 68 to 78: the admission configuration of the pod-node-selector feature.\<close>

definition generateConfigurationFiles_podNodeSelector :: task where
  "generateConfigurationFiles_podNodeSelector D s =
     (case Features_PodNodeSelector (Features (Cluster s)) of
        None \<Rightarrow> (None, s)
      | Some pns \<Rightarrow>
          if PodNodeSelector_Enable pns then
            (case NewAdmissionConfig D (Versions_Kubernetes (Cluster s)) pns of
               Inl err \<Rightarrow> (Some (Wrap err ''failed to generate admissionconfiguration manifest''), s)
             | Inr admissionCfg \<Rightarrow>
                 (let s1 = s\<lparr>Configuration :=
                             AddFile (Configuration s) ''cfg/admission-config.yaml'' admissionCfg\<rparr>
                  in case AddFilePath D (Configuration s1) ''cfg/podnodeselector.yaml''
                            (ConfigFilePath pns) (ManifestFilePath s1) of
                       (Some err, c) \<Rightarrow>
                         (Some (Wrap err ''failed to add podnodeselector config file''),
                          s1\<lparr>Configuration := c\<rparr>)
                     | (None, c) \<Rightarrow> (None, s1\<lparr>Configuration := c\<rparr>)))
          else (None, s))"

text \<open>
  Lines 80 to 98: the configuration of the encryption providers. Line 84 reads a field
  through the pointer \<^verbatim>\<open>EncryptionProviders\<close> with no nil check before it: on a nil
  pointer the source panics, which is the result \<open>Some NilPointerDereference\<close> here.
\<close>

definition generateConfigurationFiles_encryption :: task where
  "generateConfigurationFiles_encryption D s =
     (if ShouldEnableEncryption D s \<or> EncryptionEnabled D s then
        (let configFileName = GetEncryptionProviderConfigName D s
         in case Features_EncryptionProviders (Features (Cluster s)) of
              None \<Rightarrow> (Some NilPointerDereference, s)
            | Some ep \<Rightarrow>
                if CustomEncryptionConfiguration ep \<noteq> '''' then
                  (None, s\<lparr>Configuration :=
                             AddFile (Configuration s) (''cfg/'' @ configFileName)
                               (CustomEncryptionConfiguration ep)\<rparr>)
                else if ShouldEnableEncryption D s then
                  (case NewEncyrptionProvidersConfig D s of
                     Inl err \<Rightarrow> (Some err, s)
                   | Inr encryptionProvidersConfig \<Rightarrow>
                       (case KubernetesToYAML D [encryptionProvidersConfig] of
                          Inl err \<Rightarrow> (Some err, s)
                        | Inr config \<Rightarrow>
                            (None, s\<lparr>Configuration :=
                                       AddFile (Configuration s) (''cfg/'' @ configFileName) config\<rparr>)))
                else (None, s))
      else (None, s))"

definition generateConfigurationFiles :: task where
  "generateConfigurationFiles D s =
     (let s0 = s\<lparr>Configuration :=
                 AddFile (Configuration s) ''cfg/cloud-config''
                   (CloudProvider_CloudConfig (Cluster s))\<rparr>
      in case generateConfigurationFiles_auditPolicy D s0 of
           (Some err, s1) \<Rightarrow> (Some err, s1)
         | (None, s1) \<Rightarrow>
             (case generateConfigurationFiles_podNodeSelector D s1 of
                (Some err, s2) \<Rightarrow> (Some err, s2)
              | (None, s2) \<Rightarrow>
                  (case generateConfigurationFiles_encryption D s2 of
                     (Some err, s3) \<Rightarrow> (Some err, s3)
                   | (None, s3) \<Rightarrow> (None, s3))))"

subsection \<open>Proxy setup\<close>

definition createEnvironmentFile :: task where
  "createEnvironmentFile D s =
     (case scripts D (scripts_EnvironmentFile (Cluster s)) of
        Inl err \<Rightarrow> (Some err, s)
      | Inr cmd \<Rightarrow> Runner_RunRaw D s cmd)"

definition containerRuntimeEnvironment :: task where
  "containerRuntimeEnvironment D s =
     (if HTTP (Proxy (Cluster s)) = '''' \<and> HTTPS (Proxy (Cluster s)) = ''''
         \<and> NoProxy (Proxy (Cluster s)) = '''' then (None, s)
      else
        (case scripts D (scripts_DaemonsEnvironmentDropIn [''docker'', ''containerd'', ''kubelet'']) of
           Inl err \<Rightarrow> (Some err, s)
         | Inr cmd \<Rightarrow> Runner_RunRaw D s cmd))"

definition setupProxy :: task where
  "setupProxy D s =
     (case createEnvironmentFile D s of
        (Some err, s1) \<Rightarrow> (Some (Wrap err ''failed to create environment file''), s1)
      | (None, s1) \<Rightarrow>
          (case containerRuntimeEnvironment D s1 of
             (Some err, s2) \<Rightarrow> (Some (Wrap err ''failed to configure proxy for docker daemon''), s2)
           | (None, s2) \<Rightarrow> (None, s2)))"

subsection \<open>Installing kubeadm\<close>

definition installKubeadmDebian :: task where
  "installKubeadmDebian D s =
     (case scripts D (scripts_KubeadmDebian (Cluster s) (ForceInstall s)) of
        Inl err \<Rightarrow> (Some err, s)
      | Inr cmd \<Rightarrow> (let (err, s1) = Runner_RunRaw D s cmd in (errors_WithStack err, s1)))"

definition installKubeadmCentOS :: task where
  "installKubeadmCentOS D s =
     (case scripts D (scripts_KubeadmCentOS (Cluster s) (ForceInstall s)) of
        Inl err \<Rightarrow> (Some err, s)
      | Inr cmd \<Rightarrow> (let (err, s1) = Runner_RunRaw D s cmd in (errors_WithStack err, s1)))"

definition installKubeadmAmazonLinux :: task where
  "installKubeadmAmazonLinux D s =
     (case scripts D (scripts_KubeadmAmazonLinux (Cluster s) (ForceInstall s)) of
        Inl err \<Rightarrow> (Some err, s)
      | Inr cmd \<Rightarrow> (let (err, s1) = Runner_RunRaw D s cmd in (errors_WithStack err, s1)))"

definition installKubeadmFlatcar :: task where
  "installKubeadmFlatcar D s =
     (case scripts D (scripts_KubeadmFlatcar (Cluster s)) of
        Inl err \<Rightarrow> (Some err, s)
      | Inr cmd \<Rightarrow> (let (err, s1) = Runner_RunRaw D s cmd in (errors_WithStack err, s1)))"

text \<open>
  Modelled from the spec: \<^verbatim>\<open>runOnOS\<close>, defined in another file of the package.
  Section 4.2: the host's operating system is resolved against the mapping from operating
  system to install procedure, and an unmapped one is a fatal error for that host, not
  skipped.
\<close>

definition runOnOS :: "Deps \<Rightarrow> State \<Rightarrow> OperatingSystemName \<Rightarrow> (OperatingSystemName \<rightharpoonup> task) \<Rightarrow> error option \<times> State" where
  "runOnOS D s osname fnMap =
     (case fnMap osname of
        Some fn \<Rightarrow> fn D s
      | None \<Rightarrow> (Some (NotSupportedOS osname), s))"

text \<open>The map literal of \<^verbatim>\<open>installKubeadm\<close>, lines 175 to 182.\<close>

definition installKubeadm_fnMap :: "OperatingSystemName \<rightharpoonup> task" where
  "installKubeadm_fnMap = map_of
     [(OperatingSystemNameAmazon, installKubeadmAmazonLinux),
      (OperatingSystemNameCentOS, installKubeadmCentOS),
      (OperatingSystemNameDebian, installKubeadmDebian),
      (OperatingSystemNameFlatcar, installKubeadmFlatcar),
      (OperatingSystemNameRHEL, installKubeadmCentOS),
      (OperatingSystemNameUbuntu, installKubeadmDebian)]"

definition installKubeadm :: "Deps \<Rightarrow> State \<Rightarrow> HostConfig \<Rightarrow> error option \<times> State" where
  "installKubeadm D s node = runOnOS D s (OperatingSystem node) installKubeadm_fnMap"

subsection \<open>Running a task on all nodes\<close>





subsection \<open>Installing the prerequisites\<close>




subsection \<open>A concrete run\<close>

text \<open>
  A cluster of four hosts (two RHEL, one CentOS, one Flatcar) with no proxy and no
  optional feature, of which only the second has joined the cluster, and an environment
  in which every script renders, every command succeeds, one file can be read and the
  scheduler gives all hosts the same rank, so that a concurrent call runs them in
  registry order. The install scripts for Debian, CentOS and Amazon Linux of this
  environment depend on the force flag they are rendered with.
\<close>

definition example_hosts :: "HostConfig list" where
  "example_hosts =
     [\<lparr>ID = 1, OperatingSystem = OperatingSystemNameRHEL\<rparr>,
      \<lparr>ID = 2, OperatingSystem = OperatingSystemNameRHEL\<rparr>,
      \<lparr>ID = 3, OperatingSystem = OperatingSystemNameCentOS\<rparr>,
      \<lparr>ID = 4, OperatingSystem = OperatingSystemNameFlatcar\<rparr>]"

definition example_cluster :: KubeOneCluster where
  "example_cluster =
     \<lparr>Versions_Kubernetes = ''1.22.5'',
      CloudProvider_CloudConfig = ''cloud'',
      Proxy = \<lparr>HTTP = '''', HTTPS = '''', NoProxy = ''''\<rparr>,
      Features = \<lparr>Features_StaticAuditLog = None, Features_PodNodeSelector = None,
                  Features_EncryptionProviders = None\<rparr>,
      Hosts = example_hosts\<rparr>"

definition example_live :: LiveCluster where
  "example_live =
     \<lparr>ControlPlane =
        [\<lparr>Config = \<lparr>ID = 1, OperatingSystem = OperatingSystemNameRHEL\<rparr>, Initialized = False\<rparr>,
         \<lparr>Config = \<lparr>ID = 2, OperatingSystem = OperatingSystemNameRHEL\<rparr>, Initialized = True\<rparr>],
      StaticWorkers =
        [\<lparr>Config = \<lparr>ID = 3, OperatingSystem = OperatingSystemNameCentOS\<rparr>, Initialized = False\<rparr>,
         \<lparr>Config = \<lparr>ID = 4, OperatingSystem = OperatingSystemNameFlatcar\<rparr>, Initialized = False\<rparr>]\<rparr>"

definition example_state :: State where
  "example_state =
     \<lparr>Cluster = example_cluster, LiveCluster = example_live, Configuration = Map.empty,
      Runner_Conn = 1, ForceInstall = False, ManifestFilePath = ''kubeone.yaml'',
      WorkDir = ''./kubeone'', effects = []\<rparr>"

fun example_scripts :: "script \<Rightarrow> error + string" where
  "example_scripts (scripts_EnvironmentFile c) = Inr ''environment-file''"
| "example_scripts (scripts_DaemonsEnvironmentDropIn ds) = Inr ''drop-in''"
| "example_scripts scripts_DisableNMCloudSetup = Inr ''disable-nm-cloud-setup''"
| "example_scripts (scripts_KubeadmDebian c force) =
     Inr (if force then ''kubeadm-debian-force'' else ''kubeadm-debian'')"
| "example_scripts (scripts_KubeadmCentOS c force) =
     Inr (if force then ''kubeadm-centos-force'' else ''kubeadm-centos'')"
| "example_scripts (scripts_KubeadmAmazonLinux c force) =
     Inr (if force then ''kubeadm-amzn-force'' else ''kubeadm-amzn'')"
| "example_scripts (scripts_KubeadmFlatcar c) = Inr ''kubeadm-flatcar''"

definition example_deps :: Deps where
  "example_deps =
     \<lparr>scripts = example_scripts,
      exec = (\<lambda>history ev. None),
      readFile = (\<lambda>filePath manifestFilePath.
         if filePath = ''policy.yaml'' then Inr ''policy'' else Inl (Error ''no such file'')),
      NewAdmissionConfig = (\<lambda>version pns. Inr ''admission''),
      ShouldEnableEncryption = (\<lambda>s. False),
      EncryptionEnabled = (\<lambda>s. False),
      GetEncryptionProviderConfigName = (\<lambda>s. ''encryption-providers.yaml''),
      NewEncyrptionProvidersConfig = (\<lambda>s. Inr (EncryptionConfiguration ''generated'')),
      KubernetesToYAML = (\<lambda>objs. Inr ''yaml''),
      schedule = (\<lambda>history node. 0)\<rparr>"

text \<open>The same environment with every remote command failing.\<close>

definition failing_deps :: Deps where
  "failing_deps = example_deps\<lparr>exec := (\<lambda>history ev. Some (Error ''connection lost''))\<rparr>"

text \<open>
  The same cluster with static audit logging enabled (its policy file can be read), the
  pod-node-selector feature present and disabled, and encryption providers configured
  with no custom configuration; the same with an audit policy file that cannot be read;
  and an environment in which the cluster reports encryption as already enabled.
\<close>

definition audit_state :: State where
  "audit_state = example_state\<lparr>Cluster := example_cluster\<lparr>Features :=
     \<lparr>Features_StaticAuditLog = Some \<lparr>StaticAuditLog_Enable = True, PolicyFilePath = ''policy.yaml''\<rparr>,
      Features_PodNodeSelector = Some \<lparr>PodNodeSelector_Enable = False, ConfigFilePath = ''''\<rparr>,
      Features_EncryptionProviders =
        Some \<lparr>EncryptionProviders_Enable = True, CustomEncryptionConfiguration = ''''\<rparr>\<rparr>\<rparr>\<rparr>"

definition unreadable_state :: State where
  "unreadable_state = example_state\<lparr>Cluster := example_cluster\<lparr>Features :=
     \<lparr>Features_StaticAuditLog = Some \<lparr>StaticAuditLog_Enable = True, PolicyFilePath = ''missing.yaml''\<rparr>,
      Features_PodNodeSelector = None,
      Features_EncryptionProviders = None\<rparr>\<rparr>\<rparr>"


text \<open>
  The cluster with static audit logging enabled (its policy file can be read) and the
  pod-node-selector feature enabled with a selector file that cannot be read.
\<close>

definition selector_unreadable_state :: State where
  "selector_unreadable_state = example_state\<lparr>Cluster := example_cluster\<lparr>Features :=
     \<lparr>Features_StaticAuditLog = Some \<lparr>StaticAuditLog_Enable = True, PolicyFilePath = ''policy.yaml''\<rparr>,
      Features_PodNodeSelector = Some \<lparr>PodNodeSelector_Enable = True, ConfigFilePath = ''missing.yaml''\<rparr>,
      Features_EncryptionProviders = None\<rparr>\<rparr>\<rparr>"

definition encrypted_deps :: Deps where
  "encrypted_deps = example_deps\<lparr>EncryptionEnabled := (\<lambda>s. True)\<rparr>"

text \<open>
  The conditions of lines 63 and 68 of \<^verbatim>\<open>generateConfigurationFiles\<close>: the feature is
  present and enabled.
\<close>

definition staticAuditLogEnabled :: "State \<Rightarrow> bool" where
  "staticAuditLogEnabled s =
     (case Features_StaticAuditLog (Features (Cluster s)) of
        None \<Rightarrow> False
      | Some sal \<Rightarrow> StaticAuditLog_Enable sal)"

definition podNodeSelectorEnabled :: "State \<Rightarrow> bool" where
  "podNodeSelectorEnabled s =
     (case Features_PodNodeSelector (Features (Cluster s)) of
        None \<Rightarrow> False
      | Some pns \<Rightarrow> PodNodeSelector_Enable pns)"

text \<open>
  What the fallible calls of lines 64, 69 and 75 return, when their step is enabled:
  \<open>None\<close> when the feature is absent or disabled, \<open>Some (Inl err)\<close> when the call
  fails, \<open>Some (Inr v)\<close> when it returns \<open>v\<close>. \<open>step_failed\<close> and \<open>step_value\<close>
  read such a result.
\<close>

definition auditPolicy_read :: "Deps \<Rightarrow> State \<Rightarrow> (error + string) option" where
  "auditPolicy_read D s =
     (case Features_StaticAuditLog (Features (Cluster s)) of
        None \<Rightarrow> None
      | Some sal \<Rightarrow>
          if StaticAuditLog_Enable sal
          then Some (readFile D (PolicyFilePath sal) (ManifestFilePath s)) else None)"

definition admissionConfig_made :: "Deps \<Rightarrow> State \<Rightarrow> (error + string) option" where
  "admissionConfig_made D s =
     (case Features_PodNodeSelector (Features (Cluster s)) of
        None \<Rightarrow> None
      | Some pns \<Rightarrow>
          if PodNodeSelector_Enable pns
          then Some (NewAdmissionConfig D (Versions_Kubernetes (Cluster s)) pns) else None)"

definition podNodeSelector_read :: "Deps \<Rightarrow> State \<Rightarrow> (error + string) option" where
  "podNodeSelector_read D s =
     (case Features_PodNodeSelector (Features (Cluster s)) of
        None \<Rightarrow> None
      | Some pns \<Rightarrow>
          if PodNodeSelector_Enable pns
          then Some (readFile D (ConfigFilePath pns) (ManifestFilePath s)) else None)"

definition step_failed :: "(error + string) option \<Rightarrow> bool" where
  "step_failed r = (case r of Some (Inl err) \<Rightarrow> True | _ \<Rightarrow> False)"

definition step_value :: "(error + string) option \<Rightarrow> string option" where
  "step_value r = (case r of Some (Inr v) \<Rightarrow> Some v | _ \<Rightarrow> None)"




section \<open>Properties\<close>

subsection \<open>Disabling nm-cloud-setup\<close>

lemma disableNMCloudSetup_loop_skip:
  "(\<forall>host \<in> set allHosts. ID node = ID (Config host) \<longrightarrow> Initialized host)
   \<Longrightarrow> disableNMCloudSetup_loop D node allHosts s = (None, s)"
  by (induction allHosts arbitrary: s) auto

text \<open>
  What the loop does, for any list of hosts: with \<open>n\<close> the number of entries that have
  the node's ID and are not initialized, it runs the script, sleeps and closes the
  connection \<open>n\<close> times, and returns nil; unless the script does not render, and then
  the first such entry returns the rendering error before anything is run.
\<close>

lemma disableNMCloudSetup_loop_effects:
  "disableNMCloudSetup_loop D node allHosts s =
     (case scripts D scripts_DisableNMCloudSetup of
        Inl err \<Rightarrow>
          (if filter (\<lambda>host. ID node = ID (Config host) \<and> \<not> Initialized host) allHosts = []
           then None else Some err, s)
      | Inr cmd \<Rightarrow>
          (None, s\<lparr>effects := effects s @
             concat (replicate
               (length (filter (\<lambda>host. ID node = ID (Config host) \<and> \<not> Initialized host) allHosts))
               [EvRunRaw (Runner_Conn s) cmd, EvSleep (1 * time_Minute), EvClose (Runner_Conn s)])\<rparr>))"
proof (induction allHosts arbitrary: s)
  case Nil
  show ?case by (simp split: sum.splits)
next
  case (Cons host allHosts)
  show ?case
    by (simp add: Cons.IH Runner_RunRaw_def time_Sleep_def Conn_Close_def Let_def
        split: sum.splits)
qed

text \<open>
  C2. On a RHEL node that has an entry in the live cluster which is not initialized,
  \<^verbatim>\<open>disableNMCloudSetup\<close> returns nil whenever the disabling script renders, whatever
  executing it returns: the result and the effects are those of the first conjunct, in
  which the remote side \<open>exec D\<close> does not occur, and replacing the remote side by any
  other one (third conjunct) changes nothing. For each such entry (there is at least
  one, second conjunct) the effects are the script executed, then the sleep of one
  minute, then the close of the runner's connection, in this order. The only error the
  task can return is the one of rendering the script, before any execution.
\<close>

theorem disableNMCloudSetup_uninitialized_RHEL:
  assumes "OperatingSystem node = OperatingSystemNameRHEL"
    and "host \<in> set (ControlPlane (LiveCluster s) @ StaticWorkers (LiveCluster s))"
    and "ID node = ID (Config host)"
    and "\<not> Initialized host"
  shows "disableNMCloudSetup D s node conn =
     (case scripts D scripts_DisableNMCloudSetup of
        Inl err \<Rightarrow> (Some err, s)
      | Inr cmd \<Rightarrow>
          (None, s\<lparr>effects := effects s @
             concat (replicate
               (length (filter (\<lambda>host. ID node = ID (Config host) \<and> \<not> Initialized host)
                  (ControlPlane (LiveCluster s) @ StaticWorkers (LiveCluster s))))
               [EvRunRaw (Runner_Conn s) cmd, EvSleep (1 * time_Minute), EvClose (Runner_Conn s)])\<rparr>))
    \<and> 0 < length (filter (\<lambda>host. ID node = ID (Config host) \<and> \<not> Initialized host)
                  (ControlPlane (LiveCluster s) @ StaticWorkers (LiveCluster s)))
    \<and> disableNMCloudSetup (D\<lparr>exec := remote\<rparr>) s node conn = disableNMCloudSetup D s node conn"
proof -
  let ?allHosts = "ControlPlane (LiveCluster s) @ StaticWorkers (LiveCluster s)"
  let ?P = "\<lambda>host. ID node = ID (Config host) \<and> \<not> Initialized host"
  from assms(2-4) have "host \<in> set (filter ?P ?allHosts)" by simp
  then have ne: "filter ?P ?allHosts \<noteq> []" by (metis empty_iff empty_set)
  have run: "disableNMCloudSetup D' s node conn = disableNMCloudSetup_loop D' node ?allHosts s" for D'
    using assms(1) by (simp add: disableNMCloudSetup_def Let_def)
  show ?thesis
    using ne
    by (simp add: run disableNMCloudSetup_loop_effects del: filter_append split: sum.splits)
qed

text \<open>
  Host 1 is RHEL and not initialized, and every remote command fails: the task returns
  nil, and the connection is closed after the sleep of one minute.
\<close>

theorem disableNMCloudSetup_uninitialized_RHEL_witness:
  "disableNMCloudSetup failing_deps example_state \<lparr>ID = 1, OperatingSystem = OperatingSystemNameRHEL\<rparr> 1 =
     (None, example_state\<lparr>effects :=
        [EvRunRaw 1 ''disable-nm-cloud-setup'', EvSleep 60000000000, EvClose 1]\<rparr>)"
  using disableNMCloudSetup_uninitialized_RHEL
    [of "\<lparr>ID = 1, OperatingSystem = OperatingSystemNameRHEL\<rparr>"
        "\<lparr>Config = \<lparr>ID = 1, OperatingSystem = OperatingSystemNameRHEL\<rparr>, Initialized = False\<rparr>"
        example_state failing_deps 1]
  by (simp add: example_state_def example_live_def failing_deps_def example_deps_def time_Minute_def)

text \<open>
  C6. When every entry of the live cluster that has the node's ID is initialized,
  \<^verbatim>\<open>disableNMCloudSetup\<close> returns nil and leaves the state as it was: no command is
  run, there is no sleep and no connection is closed. This holds for a node of any
  operating system, so for RHEL and for CentOS.
\<close>

theorem disableNMCloudSetup_initialized:
  assumes "\<forall>host \<in> set (ControlPlane (LiveCluster s) @ StaticWorkers (LiveCluster s)).
             ID node = ID (Config host) \<longrightarrow> Initialized host"
  shows "disableNMCloudSetup D s node conn = (None, s)"
  using assms disableNMCloudSetup_loop_skip [of _ node D s]
  by (simp add: disableNMCloudSetup_def Let_def)

text \<open>Host 2 is RHEL and initialized.\<close>

theorem disableNMCloudSetup_initialized_witness:
  "disableNMCloudSetup example_deps example_state \<lparr>ID = 2, OperatingSystem = OperatingSystemNameRHEL\<rparr> 2 =
     (None, example_state)"
  using disableNMCloudSetup_initialized
    [of example_state "\<lparr>ID = 2, OperatingSystem = OperatingSystemNameRHEL\<rparr>" example_deps 2]
  by (simp add: example_state_def example_live_def)

text \<open>
  C9. On a node whose operating system is not RHEL, \<^verbatim>\<open>disableNMCloudSetup\<close> returns
  nil and leaves the state as it was, effects included: no command, no sleep, no close.
\<close>

theorem disableNMCloudSetup_not_RHEL:
  "OperatingSystem node \<noteq> OperatingSystemNameRHEL
   \<Longrightarrow> disableNMCloudSetup D s node conn = (None, s)"
  by (simp add: disableNMCloudSetup_def)

text \<open>Host 3 is CentOS and not initialized.\<close>

theorem disableNMCloudSetup_not_RHEL_witness:
  "OperatingSystem \<lparr>ID = 3, OperatingSystem = OperatingSystemNameCentOS\<rparr> \<noteq> OperatingSystemNameRHEL
   \<and> disableNMCloudSetup failing_deps example_state
        \<lparr>ID = 3, OperatingSystem = OperatingSystemNameCentOS\<rparr> 3 = (None, example_state)"
  using disableNMCloudSetup_not_RHEL
    [of "\<lparr>ID = 3, OperatingSystem = OperatingSystemNameCentOS\<rparr>" failing_deps example_state 3]
  by simp

subsection \<open>The dispatch on the operating system\<close>

text \<open>
  C5. \<^verbatim>\<open>installKubeadm\<close> selects the procedure by looking the node's operating system
  up in a constant map, which depends on neither the state nor the environment: the same
  operating system selects the same procedure in every call. RHEL and CentOS select
  \<^verbatim>\<open>installKubeadmCentOS\<close>; Debian and Ubuntu select \<^verbatim>\<open>installKubeadmDebian\<close>.
\<close>

theorem installKubeadm_dispatch:
  "installKubeadm D s node =
     (case installKubeadm_fnMap (OperatingSystem node) of
        Some fn \<Rightarrow> fn D s
      | None \<Rightarrow> (Some (NotSupportedOS (OperatingSystem node)), s))
   \<and> installKubeadm_fnMap OperatingSystemNameRHEL = Some installKubeadmCentOS
   \<and> installKubeadm_fnMap OperatingSystemNameCentOS = Some installKubeadmCentOS
   \<and> installKubeadm_fnMap OperatingSystemNameDebian = Some installKubeadmDebian
   \<and> installKubeadm_fnMap OperatingSystemNameUbuntu = Some installKubeadmDebian"
  by (simp add: installKubeadm_def runOnOS_def installKubeadm_fnMap_def)

text \<open>A RHEL node and a CentOS node run the same procedure; so do Debian and Ubuntu.\<close>

theorem installKubeadm_dispatch_witness:
  "installKubeadm example_deps example_state \<lparr>ID = 1, OperatingSystem = OperatingSystemNameRHEL\<rparr>
     = installKubeadmCentOS example_deps example_state
   \<and> installKubeadm example_deps example_state \<lparr>ID = 3, OperatingSystem = OperatingSystemNameCentOS\<rparr>
     = installKubeadmCentOS example_deps example_state
   \<and> installKubeadm example_deps example_state \<lparr>ID = 5, OperatingSystem = OperatingSystemNameDebian\<rparr>
     = installKubeadmDebian example_deps example_state
   \<and> installKubeadm example_deps example_state \<lparr>ID = 6, OperatingSystem = OperatingSystemNameUbuntu\<rparr>
     = installKubeadmDebian example_deps example_state"
  using installKubeadm_dispatch
      [of example_deps example_state "\<lparr>ID = 1, OperatingSystem = OperatingSystemNameRHEL\<rparr>"]
    installKubeadm_dispatch
      [of example_deps example_state "\<lparr>ID = 3, OperatingSystem = OperatingSystemNameCentOS\<rparr>"]
    installKubeadm_dispatch
      [of example_deps example_state "\<lparr>ID = 5, OperatingSystem = OperatingSystemNameDebian\<rparr>"]
    installKubeadm_dispatch
      [of example_deps example_state "\<lparr>ID = 6, OperatingSystem = OperatingSystemNameUbuntu\<rparr>"]
  by simp

subsection \<open>Proxy setup\<close>

text \<open>
  C3, as stated, fails. With the three proxy variables empty, \<^verbatim>\<open>setupProxy\<close> still
  executes the environment-file script on the host: \<^verbatim>\<open>createEnvironmentFile\<close> has no
  test of the proxy variables, only \<^verbatim>\<open>containerRuntimeEnvironment\<close> has one.
\<close>

theorem setupProxy_proxy_unset_counterexample:
  "HTTP (Proxy (Cluster example_state)) = '''' \<and> HTTPS (Proxy (Cluster example_state)) = ''''
   \<and> NoProxy (Proxy (Cluster example_state)) = ''''
   \<and> setupProxy example_deps example_state
       = (None, example_state\<lparr>effects := [EvRunRaw 1 ''environment-file'']\<rparr>)
   \<and> setupProxy example_deps example_state \<noteq> (None, example_state)"
  by (simp add: setupProxy_def createEnvironmentFile_def containerRuntimeEnvironment_def
      Runner_RunRaw_def Let_def example_state_def example_cluster_def example_deps_def)

text \<open>
  C3, amended. With the three proxy variables empty, the second sub-step
  \<^verbatim>\<open>containerRuntimeEnvironment\<close> is a no-op that returns nil: the drop-in is neither
  rendered nor written. \<^verbatim>\<open>setupProxy\<close> as a whole renders the environment-file script
  and executes it, this one command and no other, and returns the error of rendering or
  of executing it, wrapped, or nil when both succeed.
\<close>

theorem setupProxy_proxy_unset:
  assumes "HTTP (Proxy (Cluster s)) = ''''" and "HTTPS (Proxy (Cluster s)) = ''''"
    and "NoProxy (Proxy (Cluster s)) = ''''"
  shows "containerRuntimeEnvironment D s = (None, s)
    \<and> setupProxy D s =
       (case scripts D (scripts_EnvironmentFile (Cluster s)) of
          Inl err \<Rightarrow> (Some (Wrap err ''failed to create environment file''), s)
        | Inr cmd \<Rightarrow>
            (errors_Wrap (exec D (effects s) (EvRunRaw (Runner_Conn s) cmd))
               ''failed to create environment file'',
             s\<lparr>effects := effects s @ [EvRunRaw (Runner_Conn s) cmd]\<rparr>))"
  using assms
  by (simp add: setupProxy_def createEnvironmentFile_def containerRuntimeEnvironment_def
      Runner_RunRaw_def Let_def errors_Wrap_def split: sum.splits option.splits)

theorem setupProxy_proxy_unset_witness:
  "containerRuntimeEnvironment failing_deps example_state = (None, example_state)
   \<and> setupProxy failing_deps example_state =
       (Some (Wrap (Error ''connection lost'') ''failed to create environment file''),
        example_state\<lparr>effects := [EvRunRaw 1 ''environment-file'']\<rparr>)"
  using setupProxy_proxy_unset [of example_state failing_deps]
  by (simp add: example_state_def example_cluster_def failing_deps_def example_deps_def
      errors_Wrap_def)

subsection \<open>The force flag of the install procedures\<close>

text \<open>
  C8, as stated, fails for Flatcar. \<^verbatim>\<open>installKubeadmFlatcar\<close> renders
  \<^verbatim>\<open>scripts.KubeadmFlatcar(s.Cluster)\<close>, a call that takes no force flag: on the Flatcar
  host the run with the flag set executes the same script as the run without it, in an
  environment whose CentOS script does change with the flag.
\<close>

theorem installKubeadm_force_flag_counterexample:
  "installKubeadm example_deps (example_state\<lparr>ForceInstall := True\<rparr>)
       \<lparr>ID = 4, OperatingSystem = OperatingSystemNameFlatcar\<rparr>
     = (None, example_state\<lparr>ForceInstall := True, effects := [EvRunRaw 1 ''kubeadm-flatcar'']\<rparr>)
   \<and> installKubeadm example_deps (example_state\<lparr>ForceInstall := False\<rparr>)
       \<lparr>ID = 4, OperatingSystem = OperatingSystemNameFlatcar\<rparr>
     = (None, example_state\<lparr>ForceInstall := False, effects := [EvRunRaw 1 ''kubeadm-flatcar'']\<rparr>)
   \<and> installKubeadm example_deps (example_state\<lparr>ForceInstall := True\<rparr>)
       \<lparr>ID = 3, OperatingSystem = OperatingSystemNameCentOS\<rparr>
     = (None, example_state\<lparr>ForceInstall := True, effects := [EvRunRaw 1 ''kubeadm-centos-force'']\<rparr>)
   \<and> installKubeadm example_deps (example_state\<lparr>ForceInstall := False\<rparr>)
       \<lparr>ID = 3, OperatingSystem = OperatingSystemNameCentOS\<rparr>
     = (None, example_state\<lparr>ForceInstall := False, effects := [EvRunRaw 1 ''kubeadm-centos'']\<rparr>)"
  by (simp add: installKubeadm_def runOnOS_def installKubeadm_fnMap_def
      installKubeadmCentOS_def installKubeadmFlatcar_def Runner_RunRaw_def Let_def
      errors_WithStack_def example_state_def example_deps_def)

text \<open>
  C8, amended. On Debian and Ubuntu, on CentOS and RHEL, and on Amazon Linux,
  \<^verbatim>\<open>installKubeadm\<close> renders the script of the operating system's family with the
  cluster and the state's force flag, executes it, and returns the error of rendering or
  of executing it. On Flatcar it renders the Flatcar script from the cluster alone,
  executes it, and returns the error of rendering or of executing it; the force flag is
  no argument of that script, and changing the flag changes neither the result nor the
  effects.
\<close>

theorem installKubeadm_force_flag:
  "(OperatingSystem node = OperatingSystemNameDebian \<or> OperatingSystem node = OperatingSystemNameUbuntu
      \<longrightarrow> installKubeadm D s node =
        (case scripts D (scripts_KubeadmDebian (Cluster s) (ForceInstall s)) of
           Inl err \<Rightarrow> (Some err, s)
         | Inr cmd \<Rightarrow>
             (errors_WithStack (exec D (effects s) (EvRunRaw (Runner_Conn s) cmd)),
              s\<lparr>effects := effects s @ [EvRunRaw (Runner_Conn s) cmd]\<rparr>)))
   \<and> (OperatingSystem node = OperatingSystemNameCentOS \<or> OperatingSystem node = OperatingSystemNameRHEL
      \<longrightarrow> installKubeadm D s node =
        (case scripts D (scripts_KubeadmCentOS (Cluster s) (ForceInstall s)) of
           Inl err \<Rightarrow> (Some err, s)
         | Inr cmd \<Rightarrow>
             (errors_WithStack (exec D (effects s) (EvRunRaw (Runner_Conn s) cmd)),
              s\<lparr>effects := effects s @ [EvRunRaw (Runner_Conn s) cmd]\<rparr>)))
   \<and> (OperatingSystem node = OperatingSystemNameAmazon
      \<longrightarrow> installKubeadm D s node =
        (case scripts D (scripts_KubeadmAmazonLinux (Cluster s) (ForceInstall s)) of
           Inl err \<Rightarrow> (Some err, s)
         | Inr cmd \<Rightarrow>
             (errors_WithStack (exec D (effects s) (EvRunRaw (Runner_Conn s) cmd)),
              s\<lparr>effects := effects s @ [EvRunRaw (Runner_Conn s) cmd]\<rparr>)))
   \<and> (OperatingSystem node = OperatingSystemNameFlatcar
      \<longrightarrow> installKubeadm D s node =
        (case scripts D (scripts_KubeadmFlatcar (Cluster s)) of
           Inl err \<Rightarrow> (Some err, s)
         | Inr cmd \<Rightarrow>
             (errors_WithStack (exec D (effects s) (EvRunRaw (Runner_Conn s) cmd)),
              s\<lparr>effects := effects s @ [EvRunRaw (Runner_Conn s) cmd]\<rparr>))
        \<and> installKubeadm D (s\<lparr>ForceInstall := force\<rparr>) node =
          (fst (installKubeadm D s node), (snd (installKubeadm D s node))\<lparr>ForceInstall := force\<rparr>))"
  by (simp add: installKubeadm_def runOnOS_def installKubeadm_fnMap_def
      installKubeadmDebian_def installKubeadmCentOS_def installKubeadmAmazonLinux_def
      installKubeadmFlatcar_def Runner_RunRaw_def Let_def split: sum.splits)

text \<open>
  With the force flag set, Ubuntu, RHEL and Amazon Linux execute the forced script of
  their family. Flatcar executes the one Flatcar script and returns the error of
  executing it, with the flag set as without it.
\<close>

theorem installKubeadm_force_flag_witness:
  "installKubeadm example_deps (example_state\<lparr>ForceInstall := True\<rparr>)
       \<lparr>ID = 5, OperatingSystem = OperatingSystemNameUbuntu\<rparr>
     = (None, example_state\<lparr>ForceInstall := True, effects := [EvRunRaw 1 ''kubeadm-debian-force'']\<rparr>)
   \<and> installKubeadm example_deps (example_state\<lparr>ForceInstall := True\<rparr>)
       \<lparr>ID = 1, OperatingSystem = OperatingSystemNameRHEL\<rparr>
     = (None, example_state\<lparr>ForceInstall := True, effects := [EvRunRaw 1 ''kubeadm-centos-force'']\<rparr>)
   \<and> installKubeadm example_deps (example_state\<lparr>ForceInstall := True\<rparr>)
       \<lparr>ID = 6, OperatingSystem = OperatingSystemNameAmazon\<rparr>
     = (None, example_state\<lparr>ForceInstall := True, effects := [EvRunRaw 1 ''kubeadm-amzn-force'']\<rparr>)
   \<and> installKubeadm failing_deps example_state
       \<lparr>ID = 4, OperatingSystem = OperatingSystemNameFlatcar\<rparr>
     = (Some (WithStack (Error ''connection lost'')),
        example_state\<lparr>effects := [EvRunRaw 1 ''kubeadm-flatcar'']\<rparr>)
   \<and> installKubeadm failing_deps (example_state\<lparr>ForceInstall := True\<rparr>)
       \<lparr>ID = 4, OperatingSystem = OperatingSystemNameFlatcar\<rparr>
     = (Some (WithStack (Error ''connection lost'')),
        example_state\<lparr>ForceInstall := True, effects := [EvRunRaw 1 ''kubeadm-flatcar'']\<rparr>)"
proof -
  have ubuntu: "installKubeadm example_deps (example_state\<lparr>ForceInstall := True\<rparr>)
       \<lparr>ID = 5, OperatingSystem = OperatingSystemNameUbuntu\<rparr>
     = (None, example_state\<lparr>ForceInstall := True, effects := [EvRunRaw 1 ''kubeadm-debian-force'']\<rparr>)"
    using installKubeadm_force_flag
      [of "\<lparr>ID = 5, OperatingSystem = OperatingSystemNameUbuntu\<rparr>" example_deps
          "example_state\<lparr>ForceInstall := True\<rparr>"]
    by (simp add: example_state_def example_deps_def errors_WithStack_def)
  have rhel: "installKubeadm example_deps (example_state\<lparr>ForceInstall := True\<rparr>)
       \<lparr>ID = 1, OperatingSystem = OperatingSystemNameRHEL\<rparr>
     = (None, example_state\<lparr>ForceInstall := True, effects := [EvRunRaw 1 ''kubeadm-centos-force'']\<rparr>)"
    using installKubeadm_force_flag
      [of "\<lparr>ID = 1, OperatingSystem = OperatingSystemNameRHEL\<rparr>" example_deps
          "example_state\<lparr>ForceInstall := True\<rparr>"]
    by (simp add: example_state_def example_deps_def errors_WithStack_def)
  have amazon: "installKubeadm example_deps (example_state\<lparr>ForceInstall := True\<rparr>)
       \<lparr>ID = 6, OperatingSystem = OperatingSystemNameAmazon\<rparr>
     = (None, example_state\<lparr>ForceInstall := True, effects := [EvRunRaw 1 ''kubeadm-amzn-force'']\<rparr>)"
    using installKubeadm_force_flag
      [of "\<lparr>ID = 6, OperatingSystem = OperatingSystemNameAmazon\<rparr>" example_deps
          "example_state\<lparr>ForceInstall := True\<rparr>"]
    by (simp add: example_state_def example_deps_def errors_WithStack_def)
  have fl: "OperatingSystem \<lparr>ID = 4, OperatingSystem = OperatingSystemNameFlatcar\<rparr>
      = OperatingSystemNameFlatcar" by simp
  note inst = installKubeadm_force_flag
      [of "\<lparr>ID = 4, OperatingSystem = OperatingSystemNameFlatcar\<rparr>" failing_deps
          example_state True]
  from inst fl have eq: "installKubeadm failing_deps example_state
        \<lparr>ID = 4, OperatingSystem = OperatingSystemNameFlatcar\<rparr> =
        (case scripts failing_deps (scripts_KubeadmFlatcar (Cluster example_state)) of
           Inl err \<Rightarrow> (Some err, example_state)
         | Inr cmd \<Rightarrow>
             (errors_WithStack (exec failing_deps (effects example_state)
                (EvRunRaw (Runner_Conn example_state) cmd)),
              example_state\<lparr>effects := effects example_state @
                [EvRunRaw (Runner_Conn example_state) cmd]\<rparr>))"
    and inv: "installKubeadm failing_deps (example_state\<lparr>ForceInstall := True\<rparr>)
        \<lparr>ID = 4, OperatingSystem = OperatingSystemNameFlatcar\<rparr> =
          (fst (installKubeadm failing_deps example_state
                 \<lparr>ID = 4, OperatingSystem = OperatingSystemNameFlatcar\<rparr>),
           (snd (installKubeadm failing_deps example_state
                 \<lparr>ID = 4, OperatingSystem = OperatingSystemNameFlatcar\<rparr>))\<lparr>ForceInstall := True\<rparr>)"
    by blast+
  have flatcar: "installKubeadm failing_deps example_state
       \<lparr>ID = 4, OperatingSystem = OperatingSystemNameFlatcar\<rparr>
     = (Some (WithStack (Error ''connection lost'')),
        example_state\<lparr>effects := [EvRunRaw 1 ''kubeadm-flatcar'']\<rparr>)"
    unfolding eq
    by (simp add: example_state_def failing_deps_def example_deps_def errors_WithStack_def)
  have flatcar_forced: "installKubeadm failing_deps (example_state\<lparr>ForceInstall := True\<rparr>)
       \<lparr>ID = 4, OperatingSystem = OperatingSystemNameFlatcar\<rparr>
     = (Some (WithStack (Error ''connection lost'')),
        example_state\<lparr>ForceInstall := True, effects := [EvRunRaw 1 ''kubeadm-flatcar'']\<rparr>)"
    unfolding inv flatcar by (simp add: example_state_def)
  from ubuntu rhel amazon flatcar flatcar_forced show ?thesis by blast
qed

subsection \<open>Generating the configuration files\<close>

text \<open>
  What each conditional step does to the state: it changes the bundle only, at its own
  paths only, and adds its entries when it is enabled and succeeds.
\<close>

lemma auditPolicy_result:
  assumes "generateConfigurationFiles_auditPolicy D s = (r, s1)"
  shows "s1 = s\<lparr>Configuration := Configuration s1\<rparr>"
    and "Cluster s1 = Cluster s"
    and "p \<noteq> ''cfg/audit-policy.yaml'' \<Longrightarrow> Configuration s1 p = Configuration s p"
    and "r = None \<Longrightarrow> staticAuditLogEnabled s \<Longrightarrow> Configuration s1 ''cfg/audit-policy.yaml'' \<noteq> None"
    and "\<not> staticAuditLogEnabled s \<Longrightarrow> Configuration s1 = Configuration s"
    and "r \<noteq> None \<Longrightarrow> Configuration s1 = Configuration s"
  using assms
  by (auto simp add: generateConfigurationFiles_auditPolicy_def AddFilePath_def AddFile_def
      staticAuditLogEnabled_def split: option.splits sum.splits if_splits)

lemma podNodeSelector_result:
  assumes "generateConfigurationFiles_podNodeSelector D s = (r, s1)"
  shows "s1 = s\<lparr>Configuration := Configuration s1\<rparr>"
    and "Cluster s1 = Cluster s"
    and "p \<noteq> ''cfg/admission-config.yaml'' \<Longrightarrow> p \<noteq> ''cfg/podnodeselector.yaml''
           \<Longrightarrow> Configuration s1 p = Configuration s p"
    and "r = None \<Longrightarrow> podNodeSelectorEnabled s \<Longrightarrow>
           Configuration s1 ''cfg/admission-config.yaml'' \<noteq> None
           \<and> Configuration s1 ''cfg/podnodeselector.yaml'' \<noteq> None"
    and "\<not> podNodeSelectorEnabled s \<Longrightarrow> Configuration s1 = Configuration s"
    and "r \<noteq> None \<Longrightarrow> p \<noteq> ''cfg/admission-config.yaml'' \<Longrightarrow> Configuration s1 p = Configuration s p"
  using assms
  by (auto simp add: generateConfigurationFiles_podNodeSelector_def AddFilePath_def AddFile_def
      Let_def podNodeSelectorEnabled_def split: option.splits sum.splits if_splits)

lemma encryption_result:
  assumes "generateConfigurationFiles_encryption D s = (r, s1)"
  shows "s1 = s\<lparr>Configuration := Configuration s1\<rparr>"
    and "Cluster s1 = Cluster s"
    and "p \<noteq> ''cfg/'' @ GetEncryptionProviderConfigName D s \<Longrightarrow> Configuration s1 p = Configuration s p"
    and "Configuration s p \<noteq> None \<Longrightarrow> Configuration s1 p \<noteq> None"
    and "r \<noteq> None \<Longrightarrow> s1 = s"
  using assms
  by (auto simp add: generateConfigurationFiles_encryption_def AddFile_def
      Let_def split: option.splits sum.splits if_splits)

lemma generateConfigurationFiles_steps:
  "generateConfigurationFiles D s = (r, s') \<Longrightarrow>
   \<exists>r1 s1. generateConfigurationFiles_auditPolicy D
        (s\<lparr>Configuration := AddFile (Configuration s) ''cfg/cloud-config''
               (CloudProvider_CloudConfig (Cluster s))\<rparr>) = (r1, s1)
     \<and> (if r1 \<noteq> None then r = r1 \<and> s' = s1
        else \<exists>r2 s2. generateConfigurationFiles_podNodeSelector D s1 = (r2, s2)
          \<and> (if r2 \<noteq> None then r = r2 \<and> s' = s2
             else generateConfigurationFiles_encryption D s2 = (r, s')))"
  by (auto simp add: generateConfigurationFiles_def Let_def split: prod.splits option.splits)

text \<open>
  C4. When \<^verbatim>\<open>generateConfigurationFiles\<close> succeeds on a bundle that has no entry yet
  at the three conditional paths, the bundle it leaves has an entry
  \<^verbatim>\<open>cfg/cloud-config\<close>; has an entry \<^verbatim>\<open>cfg/audit-policy.yaml\<close> exactly when static audit
  logging is enabled; and has the entries \<^verbatim>\<open>cfg/admission-config.yaml\<close> and
  \<^verbatim>\<open>cfg/podnodeselector.yaml\<close>, each of them, exactly when the pod-node-selector feature
  is enabled. The name of the encryption providers' file comes from a function that is
  not in this file; it is assumed to be none of the three other file names.
\<close>

theorem generateConfigurationFiles_entries:
  assumes ok: "generateConfigurationFiles D s = (None, s')"
    and fresh: "Configuration s ''cfg/audit-policy.yaml'' = None"
      "Configuration s ''cfg/admission-config.yaml'' = None"
      "Configuration s ''cfg/podnodeselector.yaml'' = None"
    and name: "\<And>st. GetEncryptionProviderConfigName D st \<noteq> ''audit-policy.yaml''
                 \<and> GetEncryptionProviderConfigName D st \<noteq> ''admission-config.yaml''
                 \<and> GetEncryptionProviderConfigName D st \<noteq> ''podnodeselector.yaml''"
  shows "Configuration s' ''cfg/cloud-config'' \<noteq> None
    \<and> (Configuration s' ''cfg/audit-policy.yaml'' \<noteq> None \<longleftrightarrow> staticAuditLogEnabled s)
    \<and> (Configuration s' ''cfg/admission-config.yaml'' \<noteq> None \<longleftrightarrow> podNodeSelectorEnabled s)
    \<and> (Configuration s' ''cfg/podnodeselector.yaml'' \<noteq> None \<longleftrightarrow> podNodeSelectorEnabled s)"
proof -
  let ?s0 = "s\<lparr>Configuration := AddFile (Configuration s) ''cfg/cloud-config''
               (CloudProvider_CloudConfig (Cluster s))\<rparr>"
  from generateConfigurationFiles_steps [OF ok] obtain s1 s2 where
    a: "generateConfigurationFiles_auditPolicy D ?s0 = (None, s1)"
    and p: "generateConfigurationFiles_podNodeSelector D s1 = (None, s2)"
    and e: "generateConfigurationFiles_encryption D s2 = (None, s')"
  proof -
    from generateConfigurationFiles_steps [OF ok] obtain r1 s1 where
      a': "generateConfigurationFiles_auditPolicy D ?s0 = (r1, s1)"
      and rest1: "if r1 \<noteq> None then None = r1 \<and> s' = s1
        else \<exists>r2 s2. generateConfigurationFiles_podNodeSelector D s1 = (r2, s2)
          \<and> (if r2 \<noteq> None then None = r2 \<and> s' = s2
             else generateConfigurationFiles_encryption D s2 = (None, s'))"
      by blast
    have r1: "r1 = None" using rest1 by (cases r1) simp_all
    with rest1 obtain r2 s2 where
      p': "generateConfigurationFiles_podNodeSelector D s1 = (r2, s2)"
      and rest2: "if r2 \<noteq> None then None = r2 \<and> s' = s2
             else generateConfigurationFiles_encryption D s2 = (None, s')"
      by auto
    have r2: "r2 = None" using rest2 by (cases r2) simp_all
    with rest2 have "generateConfigurationFiles_encryption D s2 = (None, s')" by simp
    with a' p' r1 r2 show ?thesis using that by blast
  qed
  have c0: "Configuration ?s0 = (Configuration s)(''cfg/cloud-config'' \<mapsto> CloudProvider_CloudConfig (Cluster s))"
    by (simp add: AddFile_def)
  have cl1: "Cluster s1 = Cluster s"
    using auditPolicy_result(2) [OF a] by simp
  have en0: "staticAuditLogEnabled ?s0 = staticAuditLogEnabled s"
    by (simp add: staticAuditLogEnabled_def)
  have en1: "podNodeSelectorEnabled s1 = podNodeSelectorEnabled s"
    using cl1 by (simp add: podNodeSelectorEnabled_def)
  have n: "''cfg/audit-policy.yaml'' \<noteq> ''cfg/'' @ GetEncryptionProviderConfigName D s2"
      "''cfg/admission-config.yaml'' \<noteq> ''cfg/'' @ GetEncryptionProviderConfigName D s2"
      "''cfg/podnodeselector.yaml'' \<noteq> ''cfg/'' @ GetEncryptionProviderConfigName D s2"
    using name [of s2] by auto
  have cloud: "Configuration s' ''cfg/cloud-config'' \<noteq> None"
  proof -
    have "Configuration s1 ''cfg/cloud-config'' \<noteq> None"
      using auditPolicy_result(3) [OF a, of "''cfg/cloud-config''"] c0 by simp
    then have "Configuration s2 ''cfg/cloud-config'' \<noteq> None"
      using podNodeSelector_result(3) [OF p, of "''cfg/cloud-config''"] by simp
    then show ?thesis using encryption_result(4) [OF e] by blast
  qed
  have audit: "Configuration s' ''cfg/audit-policy.yaml'' \<noteq> None \<longleftrightarrow> staticAuditLogEnabled s"
  proof -
    have "Configuration s' ''cfg/audit-policy.yaml'' = Configuration s1 ''cfg/audit-policy.yaml''"
      using encryption_result(3) [OF e n(1)] podNodeSelector_result(3) [OF p, of "''cfg/audit-policy.yaml''"]
      by simp
    moreover have "Configuration s1 ''cfg/audit-policy.yaml'' \<noteq> None \<longleftrightarrow> staticAuditLogEnabled s"
      using auditPolicy_result(4,5) [OF a] en0 c0 fresh(1) by (cases "staticAuditLogEnabled s") auto
    ultimately show ?thesis by simp
  qed
  have c1: "Configuration s1 ''cfg/admission-config.yaml'' = None"
     "Configuration s1 ''cfg/podnodeselector.yaml'' = None"
    using auditPolicy_result(3) [OF a] c0 fresh(2,3) by simp_all
  have adm: "Configuration s' ''cfg/admission-config.yaml'' \<noteq> None \<longleftrightarrow> podNodeSelectorEnabled s"
  proof -
    have "Configuration s' ''cfg/admission-config.yaml'' = Configuration s2 ''cfg/admission-config.yaml''"
      using encryption_result(3) [OF e n(2)] .
    moreover have "Configuration s2 ''cfg/admission-config.yaml'' \<noteq> None \<longleftrightarrow> podNodeSelectorEnabled s"
      using podNodeSelector_result(4,5) [OF p] en1 c1 by (cases "podNodeSelectorEnabled s") auto
    ultimately show ?thesis by simp
  qed
  have pns: "Configuration s' ''cfg/podnodeselector.yaml'' \<noteq> None \<longleftrightarrow> podNodeSelectorEnabled s"
  proof -
    have "Configuration s' ''cfg/podnodeselector.yaml'' = Configuration s2 ''cfg/podnodeselector.yaml''"
      using encryption_result(3) [OF e n(3)] .
    moreover have "Configuration s2 ''cfg/podnodeselector.yaml'' \<noteq> None \<longleftrightarrow> podNodeSelectorEnabled s"
      using podNodeSelector_result(4,5) [OF p] en1 c1 by (cases "podNodeSelectorEnabled s") auto
    ultimately show ?thesis by simp
  qed
  from cloud audit adm pns show ?thesis by blast
qed


text \<open>
  Static audit logging enabled, pod-node-selector disabled: the bundle has the cloud
  config and the audit policy, and neither of the two admission entries.
\<close>

theorem generateConfigurationFiles_entries_witness:
  "fst (generateConfigurationFiles example_deps audit_state) = None
   \<and> Configuration (snd (generateConfigurationFiles example_deps audit_state)) ''cfg/cloud-config'' \<noteq> None
   \<and> Configuration (snd (generateConfigurationFiles example_deps audit_state)) ''cfg/audit-policy.yaml'' \<noteq> None
   \<and> Configuration (snd (generateConfigurationFiles example_deps audit_state)) ''cfg/admission-config.yaml'' = None
   \<and> Configuration (snd (generateConfigurationFiles example_deps audit_state)) ''cfg/podnodeselector.yaml'' = None"
proof -
  have run: "generateConfigurationFiles example_deps audit_state =
      (None, audit_state\<lparr>Configuration :=
         [''cfg/cloud-config'' \<mapsto> ''cloud'', ''cfg/audit-policy.yaml'' \<mapsto> ''policy'']\<rparr>)"
    by (simp add: generateConfigurationFiles_def generateConfigurationFiles_auditPolicy_def
        generateConfigurationFiles_podNodeSelector_def generateConfigurationFiles_encryption_def
        AddFile_def AddFilePath_def Let_def audit_state_def example_state_def example_cluster_def
        example_deps_def)
  have fresh: "Configuration audit_state ''cfg/audit-policy.yaml'' = None"
    "Configuration audit_state ''cfg/admission-config.yaml'' = None"
    "Configuration audit_state ''cfg/podnodeselector.yaml'' = None"
    by (simp_all add: audit_state_def example_state_def)
  have name: "GetEncryptionProviderConfigName example_deps st \<noteq> ''audit-policy.yaml''
      \<and> GetEncryptionProviderConfigName example_deps st \<noteq> ''admission-config.yaml''
      \<and> GetEncryptionProviderConfigName example_deps st \<noteq> ''podnodeselector.yaml''" for st
    by (simp add: example_deps_def)
  have en: "staticAuditLogEnabled audit_state" "\<not> podNodeSelectorEnabled audit_state"
    by (simp_all add: staticAuditLogEnabled_def podNodeSelectorEnabled_def audit_state_def
        example_state_def example_cluster_def)
  show ?thesis
    using generateConfigurationFiles_entries [OF run fresh name] en by (simp add: run)
qed

text \<open>
  C7, as stated, fails. With static audit logging enabled and a policy file that
  cannot be read, \<^verbatim>\<open>generateConfigurationFiles\<close> returns the error of the add, and the
  bundle, empty on entry, holds the cloud config that line 61 added before the failure.
\<close>

theorem generateConfigurationFiles_not_atomic_counterexample:
  "generateConfigurationFiles example_deps unreadable_state =
     (Some (Wrap (Error ''no such file'') ''unable to add policy file''),
      unreadable_state\<lparr>Configuration := [''cfg/cloud-config'' \<mapsto> ''cloud'']\<rparr>)
   \<and> Configuration unreadable_state ''cfg/cloud-config'' = None
   \<and> Configuration (snd (generateConfigurationFiles example_deps unreadable_state))
        ''cfg/cloud-config'' = Some ''cloud''"
  by (simp add: generateConfigurationFiles_def generateConfigurationFiles_auditPolicy_def
      AddFile_def AddFilePath_def Let_def unreadable_state_def example_state_def
      example_cluster_def example_deps_def)

text \<open>
  The two steps that read a file or generate a manifest, written out in terms of what
  these calls return, and the four places at which \<^verbatim>\<open>generateConfigurationFiles\<close>
  can fail, each with the state it leaves.
\<close>

lemma auditPolicy_exact:
  "generateConfigurationFiles_auditPolicy D s =
     (case auditPolicy_read D s of
        None \<Rightarrow> (None, s)
      | Some (Inl err) \<Rightarrow> (Some (Wrap err ''unable to add policy file''), s)
      | Some (Inr policy) \<Rightarrow>
          (None, s\<lparr>Configuration := (Configuration s)(''cfg/audit-policy.yaml'' \<mapsto> policy)\<rparr>))"
  by (simp add: generateConfigurationFiles_auditPolicy_def auditPolicy_read_def AddFilePath_def
      AddFile_def split: option.splits sum.splits)

lemma podNodeSelector_exact:
  "generateConfigurationFiles_podNodeSelector D s =
     (case admissionConfig_made D s of
        None \<Rightarrow> (None, s)
      | Some (Inl err) \<Rightarrow>
          (Some (Wrap err ''failed to generate admissionconfiguration manifest''), s)
      | Some (Inr admissionCfg) \<Rightarrow>
          (case podNodeSelector_read D s of
             Some (Inr selector) \<Rightarrow>
               (None, s\<lparr>Configuration := (Configuration s)
                  (''cfg/admission-config.yaml'' \<mapsto> admissionCfg,
                   ''cfg/podnodeselector.yaml'' \<mapsto> selector)\<rparr>)
           | Some (Inl err) \<Rightarrow>
               (Some (Wrap err ''failed to add podnodeselector config file''),
                s\<lparr>Configuration := (Configuration s)
                  (''cfg/admission-config.yaml'' \<mapsto> admissionCfg)\<rparr>)
           | None \<Rightarrow> (None, s)))"
  by (simp add: generateConfigurationFiles_podNodeSelector_def admissionConfig_made_def
      podNodeSelector_read_def AddFilePath_def AddFile_def Let_def split: option.splits sum.splits)

lemma step_reads_Configuration [simp]:
  "auditPolicy_read D (s\<lparr>Configuration := c\<rparr>) = auditPolicy_read D s"
  "admissionConfig_made D (s\<lparr>Configuration := c\<rparr>) = admissionConfig_made D s"
  "podNodeSelector_read D (s\<lparr>Configuration := c\<rparr>) = podNodeSelector_read D s"
  by (simp_all add: auditPolicy_read_def admissionConfig_made_def podNodeSelector_read_def
      split: option.splits)

lemma generateConfigurationFiles_failure_cases:
  assumes fail: "generateConfigurationFiles D s = (Some err, s')"
  obtains
    (audit) "step_failed (auditPolicy_read D s)"
      "s' = s\<lparr>Configuration := (Configuration s)
          (''cfg/cloud-config'' \<mapsto> CloudProvider_CloudConfig (Cluster s))\<rparr>"
  | (admission) c1 where "\<not> step_failed (auditPolicy_read D s)"
      "step_failed (admissionConfig_made D s)"
      "c1 = (case step_value (auditPolicy_read D s) of
               None \<Rightarrow> (Configuration s)(''cfg/cloud-config'' \<mapsto> CloudProvider_CloudConfig (Cluster s))
             | Some policy \<Rightarrow> (Configuration s)
                 (''cfg/cloud-config'' \<mapsto> CloudProvider_CloudConfig (Cluster s),
                  ''cfg/audit-policy.yaml'' \<mapsto> policy))"
      "s' = s\<lparr>Configuration := c1\<rparr>"
  | (selector) c1 admissionCfg where "\<not> step_failed (auditPolicy_read D s)"
      "admissionConfig_made D s = Some (Inr admissionCfg)"
      "step_failed (podNodeSelector_read D s)"
      "c1 = (case step_value (auditPolicy_read D s) of
               None \<Rightarrow> (Configuration s)(''cfg/cloud-config'' \<mapsto> CloudProvider_CloudConfig (Cluster s))
             | Some policy \<Rightarrow> (Configuration s)
                 (''cfg/cloud-config'' \<mapsto> CloudProvider_CloudConfig (Cluster s),
                  ''cfg/audit-policy.yaml'' \<mapsto> policy))"
      "s' = s\<lparr>Configuration := c1(''cfg/admission-config.yaml'' \<mapsto> admissionCfg)\<rparr>"
  | (encryption) c1 where "\<not> step_failed (auditPolicy_read D s)"
      "\<not> step_failed (admissionConfig_made D s)"
      "\<not> step_failed (podNodeSelector_read D s)"
      "c1 = (case step_value (auditPolicy_read D s) of
               None \<Rightarrow> (Configuration s)(''cfg/cloud-config'' \<mapsto> CloudProvider_CloudConfig (Cluster s))
             | Some policy \<Rightarrow> (Configuration s)
                 (''cfg/cloud-config'' \<mapsto> CloudProvider_CloudConfig (Cluster s),
                  ''cfg/audit-policy.yaml'' \<mapsto> policy))"
      "s' = s\<lparr>Configuration :=
          (case step_value (admissionConfig_made D s) of
             None \<Rightarrow> c1
           | Some admissionCfg \<Rightarrow>
               (case step_value (podNodeSelector_read D s) of
                  None \<Rightarrow> c1
                | Some selector \<Rightarrow> c1(''cfg/admission-config.yaml'' \<mapsto> admissionCfg,
                                      ''cfg/podnodeselector.yaml'' \<mapsto> selector)))\<rparr>"
proof -
  let ?c0 = "(Configuration s)(''cfg/cloud-config'' \<mapsto> CloudProvider_CloudConfig (Cluster s))"
  let ?s0 = "s\<lparr>Configuration := AddFile (Configuration s) ''cfg/cloud-config''
               (CloudProvider_CloudConfig (Cluster s))\<rparr>"
  let ?c1 = "(case step_value (auditPolicy_read D s) of
               None \<Rightarrow> ?c0
             | Some policy \<Rightarrow> ?c0(''cfg/audit-policy.yaml'' \<mapsto> policy))"
  have s0: "?s0 = s\<lparr>Configuration := ?c0\<rparr>" by (simp add: AddFile_def)
  from generateConfigurationFiles_steps [OF fail] obtain r1 s1 where
    a: "generateConfigurationFiles_auditPolicy D ?s0 = (r1, s1)"
    and rest1: "if r1 \<noteq> None then Some err = r1 \<and> s' = s1
      else \<exists>r2 s2. generateConfigurationFiles_podNodeSelector D s1 = (r2, s2)
        \<and> (if r2 \<noteq> None then Some err = r2 \<and> s' = s2
           else generateConfigurationFiles_encryption D s2 = (Some err, s'))"
    by blast
  show thesis
  proof (cases "step_failed (auditPolicy_read D s)")
    case True
    with a have "r1 \<noteq> None" "s1 = s\<lparr>Configuration := ?c0\<rparr>"
      by (auto simp add: auditPolicy_exact s0 step_failed_def split: option.splits sum.splits)
    with rest1 True show thesis by (intro audit) simp_all
  next
    case False
    with a have r1: "r1 = None" and s1: "s1 = s\<lparr>Configuration := ?c1\<rparr>"
      by (auto simp add: auditPolicy_exact s0 step_failed_def step_value_def
          split: option.splits sum.splits)
    with rest1 obtain r2 s2 where
      p: "generateConfigurationFiles_podNodeSelector D s1 = (r2, s2)"
      and rest2: "if r2 \<noteq> None then Some err = r2 \<and> s' = s2
           else generateConfigurationFiles_encryption D s2 = (Some err, s')"
      by auto
    show thesis
    proof (cases "step_failed (admissionConfig_made D s)")
      case True
      with p have "r2 \<noteq> None" "s2 = s\<lparr>Configuration := ?c1\<rparr>"
        by (auto simp add: podNodeSelector_exact s1 step_failed_def split: option.splits sum.splits)
      with rest2 False True show thesis by (intro admission [of ?c1]) simp_all
    next
      case adm: False
      show thesis
      proof (cases "\<exists>a. admissionConfig_made D s = Some (Inr a) \<and> step_failed (podNodeSelector_read D s)")
        case True
        then obtain admissionCfg where m: "admissionConfig_made D s = Some (Inr admissionCfg)"
          and f: "step_failed (podNodeSelector_read D s)" by blast
        with p have "r2 \<noteq> None"
          "s2 = s\<lparr>Configuration := ?c1(''cfg/admission-config.yaml'' \<mapsto> admissionCfg)\<rparr>"
          by (auto simp add: podNodeSelector_exact s1 step_failed_def split: option.splits sum.splits)
        with rest2 False m f show thesis by (intro selector [of admissionCfg ?c1]) simp_all
      next
        case nosel: False
        have same: "step_failed (podNodeSelector_read D s) \<Longrightarrow> admissionConfig_made D s = None"
          using nosel adm
          by (auto simp add: step_failed_def split: option.splits sum.splits)
        have nf: "\<not> step_failed (podNodeSelector_read D s)"
          using same
          by (auto simp add: admissionConfig_made_def podNodeSelector_read_def step_failed_def
              split: option.splits if_splits)
        let ?c2 = "(case step_value (admissionConfig_made D s) of
             None \<Rightarrow> ?c1
           | Some admissionCfg \<Rightarrow>
               (case step_value (podNodeSelector_read D s) of
                  None \<Rightarrow> ?c1
                | Some selector \<Rightarrow> ?c1(''cfg/admission-config.yaml'' \<mapsto> admissionCfg,
                                      ''cfg/podnodeselector.yaml'' \<mapsto> selector)))"
        from p adm nf have r2: "r2 = None" and s2: "s2 = s\<lparr>Configuration := ?c2\<rparr>"
          by (auto simp add: podNodeSelector_exact s1 step_failed_def step_value_def
              split: option.splits sum.splits)
        with rest2 have "generateConfigurationFiles_encryption D s2 = (Some err, s')" by simp
        from encryption_result(5) [OF this] have "s' = s2" by simp
        with s2 False adm nf show thesis by (intro encryption [of ?c1]) simp_all
      qed
    qed
  qed
qed

text \<open>
  C7, amended. \<^verbatim>\<open>generateConfigurationFiles\<close> does not undo what it added before a
  failure: when it returns an error, every entry added before the failing step is in the
  bundle, with the content it was added with, and nothing else has changed. Precisely,
  nothing of the state but the bundle has changed, and in the bundle
  \<^item> \<^verbatim>\<open>cfg/cloud-config\<close> holds the cloud provider's configuration;
  \<^item> \<^verbatim>\<open>cfg/audit-policy.yaml\<close> holds the policy file when it was read, and is as on
    entry otherwise;
  \<^item> \<^verbatim>\<open>cfg/admission-config.yaml\<close> holds the generated admission configuration when the
    audit step did not fail and the configuration was generated, and is as on entry
    otherwise;
  \<^item> \<^verbatim>\<open>cfg/podnodeselector.yaml\<close> holds the selector file when neither the audit step
    nor the generation failed and the file was read (the failure is then in the
    encryption step), and is as on entry otherwise;
  \<^item> every other path is as on entry.
\<close>

theorem generateConfigurationFiles_failure:
  assumes fail: "generateConfigurationFiles D s = (Some err, s')"
  shows "s' = s\<lparr>Configuration := Configuration s'\<rparr>
    \<and> Configuration s' ''cfg/cloud-config'' = Some (CloudProvider_CloudConfig (Cluster s))
    \<and> Configuration s' ''cfg/audit-policy.yaml'' =
        (case step_value (auditPolicy_read D s) of
           Some policy \<Rightarrow> Some policy
         | None \<Rightarrow> Configuration s ''cfg/audit-policy.yaml'')
    \<and> Configuration s' ''cfg/admission-config.yaml'' =
        (if step_failed (auditPolicy_read D s) then Configuration s ''cfg/admission-config.yaml''
         else case step_value (admissionConfig_made D s) of
                Some admissionCfg \<Rightarrow> Some admissionCfg
              | None \<Rightarrow> Configuration s ''cfg/admission-config.yaml'')
    \<and> Configuration s' ''cfg/podnodeselector.yaml'' =
        (if step_failed (auditPolicy_read D s) \<or> step_failed (admissionConfig_made D s)
         then Configuration s ''cfg/podnodeselector.yaml''
         else case step_value (podNodeSelector_read D s) of
                Some selector \<Rightarrow> Some selector
              | None \<Rightarrow> Configuration s ''cfg/podnodeselector.yaml'')
    \<and> (\<forall>p. p \<noteq> ''cfg/cloud-config'' \<and> p \<noteq> ''cfg/audit-policy.yaml''
          \<and> p \<noteq> ''cfg/admission-config.yaml'' \<and> p \<noteq> ''cfg/podnodeselector.yaml''
          \<longrightarrow> Configuration s' p = Configuration s p)"
  using fail
proof (cases rule: generateConfigurationFiles_failure_cases)
  case audit
  then show ?thesis
    by (auto simp add: step_failed_def step_value_def split: option.splits sum.splits)
next
  case (admission c1)
  then show ?thesis
    by (auto simp add: step_failed_def step_value_def split: option.splits sum.splits)
next
  case (selector c1 admissionCfg)
  then show ?thesis
    by (auto simp add: step_failed_def step_value_def split: option.splits sum.splits)
next
  case (encryption c1)
  have same: "admissionConfig_made D s = None \<longleftrightarrow> podNodeSelector_read D s = None"
    by (simp add: admissionConfig_made_def podNodeSelector_read_def split: option.splits)
  from encryption same show ?thesis
    by (auto simp add: step_failed_def step_value_def split: option.splits sum.splits)
qed

text \<open>
  The selector file cannot be read: the error is the one of that add, and the bundle
  keeps the cloud config, the audit policy and the admission configuration that were
  added before it.
\<close>

theorem generateConfigurationFiles_failure_witness:
  "fst (generateConfigurationFiles example_deps selector_unreadable_state) =
     Some (Wrap (Error ''no such file'') ''failed to add podnodeselector config file'')
   \<and> Configuration (snd (generateConfigurationFiles example_deps selector_unreadable_state))
        ''cfg/cloud-config'' = Some ''cloud''
   \<and> Configuration (snd (generateConfigurationFiles example_deps selector_unreadable_state))
        ''cfg/audit-policy.yaml'' = Some ''policy''
   \<and> Configuration (snd (generateConfigurationFiles example_deps selector_unreadable_state))
        ''cfg/admission-config.yaml'' = Some ''admission''
   \<and> Configuration (snd (generateConfigurationFiles example_deps selector_unreadable_state))
        ''cfg/podnodeselector.yaml'' = None
   \<and> Configuration (snd (generateConfigurationFiles example_deps selector_unreadable_state))
        ''cfg/encryption-providers.yaml'' = None"
proof -
  obtain s' where run: "generateConfigurationFiles example_deps selector_unreadable_state =
     (Some (Wrap (Error ''no such file'') ''failed to add podnodeselector config file''), s')"
    by (simp add: generateConfigurationFiles_def generateConfigurationFiles_auditPolicy_def
      generateConfigurationFiles_podNodeSelector_def
      AddFile_def AddFilePath_def Let_def selector_unreadable_state_def example_state_def
      example_cluster_def example_deps_def)
  have reads: "step_value (auditPolicy_read example_deps selector_unreadable_state) = Some ''policy''"
    "\<not> step_failed (auditPolicy_read example_deps selector_unreadable_state)"
    "step_value (admissionConfig_made example_deps selector_unreadable_state) = Some ''admission''"
    "\<not> step_failed (admissionConfig_made example_deps selector_unreadable_state)"
    "step_value (podNodeSelector_read example_deps selector_unreadable_state) = None"
    by (simp_all add: auditPolicy_read_def admissionConfig_made_def podNodeSelector_read_def
        step_value_def step_failed_def selector_unreadable_state_def example_state_def
        example_cluster_def example_deps_def)
  have entry: "CloudProvider_CloudConfig (Cluster selector_unreadable_state) = ''cloud''"
    "Configuration selector_unreadable_state = Map.empty"
    by (simp_all add: selector_unreadable_state_def example_state_def example_cluster_def)
  show ?thesis
    using generateConfigurationFiles_failure [OF run] by (simp add: run reads entry)
qed

text \<open>
  C10. Let the audit-policy step and the pod-node-selector step succeed, and let
  \<open>s2\<close> be the state they leave, the one in which line 80 is reached. If there the
  cluster has encryption enabled already (\<^verbatim>\<open>EncryptionEnabled\<close>), no fresh configuration
  is to be generated (\<^verbatim>\<open>ShouldEnableEncryption\<close> is false) and the custom encryption
  configuration is empty, then the encryption step returns nil and leaves \<open>s2\<close> as it
  is, bundle included, and \<^verbatim>\<open>generateConfigurationFiles\<close> returns nil with that state.
\<close>

theorem generateConfigurationFiles_encryption_already_enabled:
  assumes "generateConfigurationFiles_auditPolicy D
             (s\<lparr>Configuration := AddFile (Configuration s) ''cfg/cloud-config''
                   (CloudProvider_CloudConfig (Cluster s))\<rparr>) = (None, s1)"
    and "generateConfigurationFiles_podNodeSelector D s1 = (None, s2)"
    and "EncryptionEnabled D s2" and "\<not> ShouldEnableEncryption D s2"
    and "Features_EncryptionProviders (Features (Cluster s2)) = Some ep"
    and "CustomEncryptionConfiguration ep = ''''"
  shows "generateConfigurationFiles_encryption D s2 = (None, s2)
    \<and> generateConfigurationFiles D s = (None, s2)"
proof -
  have e: "generateConfigurationFiles_encryption D s2 = (None, s2)"
    using assms(3-6) by (simp add: generateConfigurationFiles_encryption_def Let_def)
  show ?thesis
    using assms(1,2) e by (simp add: generateConfigurationFiles_def Let_def)
qed

text \<open>
  Encryption already enabled, no custom configuration: the bundle has the cloud config
  and the audit policy, and no entry for the encryption providers.
\<close>

theorem generateConfigurationFiles_encryption_already_enabled_witness:
  "generateConfigurationFiles encrypted_deps audit_state =
     (None, audit_state\<lparr>Configuration :=
         [''cfg/cloud-config'' \<mapsto> ''cloud'', ''cfg/audit-policy.yaml'' \<mapsto> ''policy'']\<rparr>)"
proof -
  let ?s2 = "audit_state\<lparr>Configuration :=
         [''cfg/cloud-config'' \<mapsto> ''cloud'', ''cfg/audit-policy.yaml'' \<mapsto> ''policy'']\<rparr>"
  have a: "generateConfigurationFiles_auditPolicy encrypted_deps
             (audit_state\<lparr>Configuration := AddFile (Configuration audit_state) ''cfg/cloud-config''
                   (CloudProvider_CloudConfig (Cluster audit_state))\<rparr>) = (None, ?s2)"
    by (simp add: generateConfigurationFiles_auditPolicy_def AddFile_def AddFilePath_def
        audit_state_def example_state_def example_cluster_def encrypted_deps_def example_deps_def)
  have p: "generateConfigurationFiles_podNodeSelector encrypted_deps ?s2 = (None, ?s2)"
    by (simp add: generateConfigurationFiles_podNodeSelector_def audit_state_def
        example_state_def example_cluster_def)
  have h: "EncryptionEnabled encrypted_deps ?s2" "\<not> ShouldEnableEncryption encrypted_deps ?s2"
    "Features_EncryptionProviders (Features (Cluster ?s2)) =
       Some \<lparr>EncryptionProviders_Enable = True, CustomEncryptionConfiguration = ''''\<rparr>"
    "CustomEncryptionConfiguration
       \<lparr>EncryptionProviders_Enable = True, CustomEncryptionConfiguration = ''''\<rparr> = ''''"
    by (simp_all add: encrypted_deps_def example_deps_def audit_state_def example_state_def
        example_cluster_def)
  show ?thesis
    using generateConfigurationFiles_encryption_already_enabled [OF a p h] by simp
qed

subsection \<open>The order of the tasks of installPrerequisites\<close>

















end
